theory Spec2Isabelle
  imports Complex_Main
begin

section \<open>Secular and diffusion timescales of a test particle\<close>

text \<open>
  A shallow embedding of \<^verbatim>\<open>getSecularAndDiffusionTimes.py\<close>.

  A Python float is a double. The model keeps its range and leaves out its rounding: the
  result of an operation is the exact real result where that lies in the range of a
  double, an infinity (or \<^verbatim>\<open>OverflowError\<close>, for a power) where it is too large, and zero
  where it is too small. Every place where a float operation raises is a branch of the
  model. The sign of a zero is not kept: no operation of the program tells \<^verbatim>\<open>0.0\<close> from
  \<^verbatim>\<open>-0.0\<close>, except the sign that \<^verbatim>\<open>print\<close> shows.
\<close>

subsection \<open>Floats\<close>

datatype float_val = Fin real | PInf | NInf | NaN

text \<open>
  \<open>NegativeBasePower\<close> stands for a negative float raised to a non-integer power:
  Python 2 raises \<^verbatim>\<open>ValueError\<close> there, Python 3 continues with a complex number.
  In both cases the run has left the floats, and the model stops following it.
\<close>

datatype py_error = ZeroDivisionError | OverflowError | NegativeBasePower

text \<open>
  The largest double and the smallest normal double; an exact result at or beyond
  \<open>overflow_threshold\<close> rounds to an infinity, one at or below \<open>underflow_threshold\<close>
  (half the smallest subnormal double) rounds to zero.
\<close>

definition max_float :: real where
  "max_float = 2 ^ 1024 - 2 ^ 971"

definition min_normal :: real where
  "min_normal = 1 / 2 ^ 1022"

definition overflow_threshold :: real where
  "overflow_threshold = 2 ^ 1024 - 2 ^ 970"

definition underflow_threshold :: real where
  "underflow_threshold = 1 / 2 ^ 1075"

text \<open>The float that an operation with the exact result \<open>r\<close> returns.\<close>

definition fl :: "real \<Rightarrow> float_val" where
  "fl r =
     (if overflow_threshold \<le> r then PInf
      else if r \<le> - overflow_threshold then NInf
      else if \<bar>r\<bar> \<le> underflow_threshold then Fin 0
      else Fin r)"

text \<open>An exact result that no rounding takes out of the normal doubles.\<close>

definition in_normal_range :: "real \<Rightarrow> bool" where
  "in_normal_range r \<longleftrightarrow> min_normal \<le> \<bar>r\<bar> \<and> \<bar>r\<bar> \<le> max_float"

subsection \<open>Operations that follow IEEE 754 and do not raise\<close>

fun f_neg :: "float_val \<Rightarrow> float_val" where
  "f_neg (Fin x) = Fin (- x)"
| "f_neg PInf = NInf"
| "f_neg NInf = PInf"
| "f_neg NaN = NaN"

fun f_abs :: "float_val \<Rightarrow> float_val" where
  "f_abs (Fin x) = Fin \<bar>x\<bar>"
| "f_abs PInf = PInf"
| "f_abs NInf = PInf"
| "f_abs NaN = NaN"

fun f_add :: "float_val \<Rightarrow> float_val \<Rightarrow> float_val" where
  "f_add (Fin x) (Fin y) = fl (x + y)"
| "f_add NaN _ = NaN"
| "f_add _ NaN = NaN"
| "f_add PInf NInf = NaN"
| "f_add NInf PInf = NaN"
| "f_add PInf _ = PInf"
| "f_add NInf _ = NInf"
| "f_add _ PInf = PInf"
| "f_add _ NInf = NInf"

definition f_sub :: "float_val \<Rightarrow> float_val \<Rightarrow> float_val" where
  "f_sub a b = f_add a (f_neg b)"

fun f_mul :: "float_val \<Rightarrow> float_val \<Rightarrow> float_val" where
  "f_mul (Fin x) (Fin y) = fl (x * y)"
| "f_mul NaN _ = NaN"
| "f_mul _ NaN = NaN"
| "f_mul (Fin x) PInf = (if x = 0 then NaN else if 0 < x then PInf else NInf)"
| "f_mul (Fin x) NInf = (if x = 0 then NaN else if 0 < x then NInf else PInf)"
| "f_mul PInf (Fin y) = (if y = 0 then NaN else if 0 < y then PInf else NInf)"
| "f_mul NInf (Fin y) = (if y = 0 then NaN else if 0 < y then NInf else PInf)"
| "f_mul PInf PInf = PInf"
| "f_mul PInf NInf = NInf"
| "f_mul NInf PInf = NInf"
| "f_mul NInf NInf = PInf"

text \<open>Division by a float that is not zero.\<close>

fun f_div :: "float_val \<Rightarrow> float_val \<Rightarrow> float_val" where
  "f_div (Fin x) (Fin y) = fl (x / y)"
| "f_div NaN _ = NaN"
| "f_div _ NaN = NaN"
| "f_div (Fin x) PInf = Fin 0"
| "f_div (Fin x) NInf = Fin 0"
| "f_div PInf (Fin y) = (if 0 < y then PInf else NInf)"
| "f_div NInf (Fin y) = (if 0 < y then NInf else PInf)"
| "f_div PInf PInf = NaN"
| "f_div PInf NInf = NaN"
| "f_div NInf PInf = NaN"
| "f_div NInf NInf = NaN"

text \<open>\<^verbatim>\<open>a < b\<close> on floats: false whenever a NaN is compared.\<close>

fun f_less :: "float_val \<Rightarrow> float_val \<Rightarrow> bool" where
  "f_less (Fin x) (Fin y) = (x < y)"
| "f_less NaN _ = False"
| "f_less _ NaN = False"
| "f_less _ NInf = False"
| "f_less PInf _ = False"
| "f_less NInf _ = True"
| "f_less _ PInf = True"

text \<open>The power of a finite nonzero base, before its range is looked at.\<close>

definition exact_pow :: "real \<Rightarrow> real \<Rightarrow> real" where
  "exact_pow x y = (if 0 < x then x powr y else x powi \<lfloor>y\<rfloor>)"

definition odd_integer :: "real \<Rightarrow> bool" where
  "odd_integer y \<longleftrightarrow> y \<in> \<int> \<and> odd \<lfloor>y\<rfloor>"

subsection \<open>Python float operations\<close>

text \<open>\<^verbatim>\<open>a / b\<close> on Python floats.\<close>

definition py_div :: "float_val \<Rightarrow> float_val \<Rightarrow> py_error + float_val" where
  "py_div a b = (if b = Fin 0 then Inl ZeroDivisionError else Inr (f_div a b))"

text \<open>
  \<^verbatim>\<open>a ** y\<close> on Python floats, for a finite exponent (an integer exponent is converted to
  a float first), in the order of the tests of CPython's \<^verbatim>\<open>float_pow\<close>.
\<close>

definition py_pow :: "float_val \<Rightarrow> real \<Rightarrow> py_error + float_val" where
  "py_pow a y =
     (if y = 0 then Inr (Fin 1)
      else case a of
        NaN \<Rightarrow> Inr NaN
      | PInf \<Rightarrow> Inr (if 0 < y then PInf else Fin 0)
      | NInf \<Rightarrow> Inr (if 0 < y then (if odd_integer y then NInf else PInf) else Fin 0)
      | Fin x \<Rightarrow>
          if x = 0 then (if y < 0 then Inl ZeroDivisionError else Inr (Fin 0))
          else if x < 0 \<and> y \<notin> \<int> then Inl NegativeBasePower
          else if overflow_threshold \<le> \<bar>exact_pow x y\<bar> then Inl OverflowError
          else Inr (fl (exact_pow x y)))"

text \<open>\<^verbatim>\<open>min(a, b)\<close>: the second argument where it is smaller, the first otherwise.\<close>

definition py_min :: "float_val \<Rightarrow> float_val \<Rightarrow> float_val" where
  "py_min a b = (if f_less b a then b else a)"

text \<open>Sequencing: the first exception ends the computation.\<close>

definition then_do :: "py_error + 'a \<Rightarrow> ('a \<Rightarrow> py_error + 'b) \<Rightarrow> py_error + 'b" where
  "then_do r f = (case r of Inl e \<Rightarrow> Inl e | Inr v \<Rightarrow> f v)"

subsection \<open>numpy float operations of the integrand\<close>

text \<open>
  \<^verbatim>\<open>np.cos\<close> returns a numpy float, so the operations of the integrand that take its
  result are numpy's: they do not raise, they return an infinity or a NaN.
\<close>

fun np_cos :: "float_val \<Rightarrow> float_val" where
  "np_cos (Fin x) = Fin (cos x)"
| "np_cos _ = NaN"

definition np_power :: "float_val \<Rightarrow> real \<Rightarrow> float_val" where
  "np_power a y =
     (if y = 0 then Fin 1
      else case a of
        NaN \<Rightarrow> NaN
      | PInf \<Rightarrow> (if 0 < y then PInf else Fin 0)
      | NInf \<Rightarrow> (if 0 < y then (if odd_integer y then NInf else PInf) else Fin 0)
      | Fin x \<Rightarrow>
          if x = 0 then (if y < 0 then PInf else Fin 0)
          else if x < 0 \<and> y \<notin> \<int> then NaN
          else fl (exact_pow x y))"

definition np_divide :: "float_val \<Rightarrow> float_val \<Rightarrow> float_val" where
  "np_divide a b =
     (if b = Fin 0 then
        (case a of
           Fin x \<Rightarrow> (if x = 0 then NaN else if 0 < x then PInf else NInf)
         | PInf \<Rightarrow> PInf
         | NInf \<Rightarrow> NInf
         | NaN \<Rightarrow> NaN)
      else f_div a b)"

subsection \<open>Constants\<close>

text \<open>Jupiter mass in Solar masses: \<^verbatim>\<open>mJup_mSun = 9.55e-4\<close>.\<close>

definition mJup_mSun :: real where
  "mJup_mSun = 955 / 1000000"

subsection \<open>Functions\<close>

text \<open>
  The arguments of the functions are finite floats. \<^verbatim>\<open>scipy.integrate.quad\<close> is not part
  of the program: the quadrature routine is a parameter, taking the integrand and the
  two limits and returning its estimate (the component \<^verbatim>\<open>[0]\<close> of its result) or the
  exception that it or the integrand raised.
\<close>

type_synonym quadrature =
  "(real \<Rightarrow> py_error + float_val) \<Rightarrow> real \<Rightarrow> real \<Rightarrow> py_error + float_val"

text \<open>
  In the integrand \<^verbatim>\<open>j*psi\<close>, \<^verbatim>\<open>2*alpha\<close> and \<^verbatim>\<open>alpha**2\<close> are Python's operations, and
  the power may raise; the rest is numpy's.
\<close>

definition laplaceCoefficientIntegrand ::
  "real \<Rightarrow> real \<Rightarrow> float_val \<Rightarrow> real \<Rightarrow> py_error + float_val" where
  "laplaceCoefficientIntegrand j s alpha psi =
     (let c = np_cos (f_mul (Fin j) (Fin psi));
          t = f_sub (Fin 1) (f_mul (f_mul (Fin 2) alpha) (np_cos (Fin psi)))
      in then_do (py_pow alpha 2) (\<lambda>a2.
         Inr (np_divide c (np_power (f_add t a2) s))))"

definition GetLaplaceCoefficient ::
  "quadrature \<Rightarrow> real \<Rightarrow> real \<Rightarrow> float_val \<Rightarrow> py_error + float_val" where
  "GetLaplaceCoefficient quad j s alpha =
     then_do (py_div (Fin 1) (Fin pi)) (\<lambda>c.
     then_do (quad (laplaceCoefficientIntegrand j s alpha) 0 (2 * pi)) (\<lambda>q.
     Inr (f_mul c q)))"

definition GetOrbitalPeriod_yr :: "real \<Rightarrow> real \<Rightarrow> py_error + float_val" where
  "GetOrbitalPeriod_yr a_au mStar_mSun =
     then_do (py_pow (Fin pi) 2) (\<lambda>pi2.
     then_do (py_pow (Fin a_au) 3) (\<lambda>a3.
     then_do (py_div (f_mul (f_mul (Fin 4) pi2) (Fin mStar_mSun)) a3) (\<lambda>q.
     then_do (py_pow (f_abs q) (5 / 10)) (\<lambda>n_radPerYr.
     py_div (f_mul (Fin 2) (Fin pi)) n_radPerYr))))"

text \<open>
  \<^verbatim>\<open>alpha = min(aPlt_au/aTest_au, aTest_au/aPlt_au)\<close>, as both timescale functions
  compute it: the left quotient first.
\<close>

definition alpha_ratio :: "real \<Rightarrow> real \<Rightarrow> py_error + float_val" where
  "alpha_ratio aPlt_au aTest_au =
     then_do (py_div (Fin aPlt_au) (Fin aTest_au)) (\<lambda>r1.
     then_do (py_div (Fin aTest_au) (Fin aPlt_au)) (\<lambda>r2.
     Inr (py_min r1 r2)))"

definition GetSecularTimescale_yr ::
  "quadrature \<Rightarrow> real \<Rightarrow> real \<Rightarrow> real \<Rightarrow> real \<Rightarrow> py_error + float_val" where
  "GetSecularTimescale_yr quad mStar_mSun mPlt_mJup aPlt_au aTest_au =
     (if mPlt_mJup = 0 then Inr PInf
      else
        let mPlt_mSun = f_mul (Fin mPlt_mJup) (Fin mJup_mSun) in
        then_do (py_div mPlt_mSun (Fin mStar_mSun)) (\<lambda>mPlt_mStar.
        then_do (alpha_ratio aPlt_au aTest_au) (\<lambda>alpha.
        then_do (GetOrbitalPeriod_yr aPlt_au mStar_mSun) (\<lambda>tPlt_yr.
        then_do (GetLaplaceCoefficient quad 1 (15 / 10) alpha) (\<lambda>b1_32.
        if aPlt_au \<le> aTest_au then
          then_do (py_div (f_mul (Fin 4) tPlt_yr) mPlt_mStar) (\<lambda>x.
          then_do (py_pow alpha (- (25 / 10))) (\<lambda>p.
          py_div (f_mul x p) b1_32))
        else
          then_do (py_div (f_mul (Fin 4) tPlt_yr) mPlt_mStar) (\<lambda>x.
          then_do (py_pow alpha (- (5 / 10))) (\<lambda>p.
          py_div (f_mul x p) b1_32)))))))"

definition GetDiffusionTimescale_yr ::
  "real \<Rightarrow> real \<Rightarrow> real \<Rightarrow> real \<Rightarrow> py_error + float_val" where
  "GetDiffusionTimescale_yr mStar_mSun mPlt_mJup aPlt_au aTest_au =
     (if mPlt_mJup = 0 then Inr PInf
      else
        let mPlt_mSun = f_mul (Fin mPlt_mJup) (Fin mJup_mSun) in
        then_do (alpha_ratio aPlt_au aTest_au) (\<lambda>alpha.
        then_do (GetOrbitalPeriod_yr aPlt_au mStar_mSun) (\<lambda>tPlt_yr.
        then_do (py_pow alpha (5 / 10)) (\<lambda>p.
        then_do (py_div mPlt_mSun (Fin mStar_mSun)) (\<lambda>ratio.
        then_do (py_pow ratio (- 2)) (\<lambda>r.
        Inr (f_mul (f_mul (f_mul (Fin (1 / 100)) tPlt_yr) p) r)))))))"

subsection \<open>The functions with the operations they perform\<close>

text \<open>
  To state which operations a call reaches, the functions are written a second time with
  a log: every float division, every float power, every entry into
  \<^verbatim>\<open>GetOrbitalPeriod_yr\<close> and every call of the quadrature routine appends an event, in
  the order in which Python evaluates them. Apart from the log the text is that of the
  functions above, and \<open>outcome_traced\<close> below proves that the results agree.
\<close>

datatype event = Division | Power | OrbitalPeriodCall | QuadratureCall

type_synonym 'a traced = "event list \<times> (py_error + 'a)"

definition tr_div :: "float_val \<Rightarrow> float_val \<Rightarrow> float_val traced" where
  "tr_div a b = ([Division], py_div a b)"

definition tr_pow :: "float_val \<Rightarrow> real \<Rightarrow> float_val traced" where
  "tr_pow a y = ([Power], py_pow a y)"

definition tr_then :: "'a traced \<Rightarrow> ('a \<Rightarrow> 'b traced) \<Rightarrow> 'b traced" where
  "tr_then m f =
     (case snd m of
        Inl e \<Rightarrow> (fst m, Inl e)
      | Inr v \<Rightarrow> (fst m @ fst (f v), snd (f v)))"

definition GetLaplaceCoefficient_traced ::
  "quadrature \<Rightarrow> real \<Rightarrow> real \<Rightarrow> float_val \<Rightarrow> float_val traced" where
  "GetLaplaceCoefficient_traced quad j s alpha =
     tr_then (tr_div (Fin 1) (Fin pi)) (\<lambda>c.
     tr_then ([QuadratureCall], quad (laplaceCoefficientIntegrand j s alpha) 0 (2 * pi)) (\<lambda>q.
     ([], Inr (f_mul c q))))"

definition GetOrbitalPeriod_yr_traced :: "real \<Rightarrow> real \<Rightarrow> float_val traced" where
  "GetOrbitalPeriod_yr_traced a_au mStar_mSun =
     tr_then ([OrbitalPeriodCall], Inr ()) (\<lambda>_.
     tr_then (tr_pow (Fin pi) 2) (\<lambda>pi2.
     tr_then (tr_pow (Fin a_au) 3) (\<lambda>a3.
     tr_then (tr_div (f_mul (f_mul (Fin 4) pi2) (Fin mStar_mSun)) a3) (\<lambda>q.
     tr_then (tr_pow (f_abs q) (5 / 10)) (\<lambda>n_radPerYr.
     tr_div (f_mul (Fin 2) (Fin pi)) n_radPerYr)))))"

definition alpha_ratio_traced :: "real \<Rightarrow> real \<Rightarrow> float_val traced" where
  "alpha_ratio_traced aPlt_au aTest_au =
     tr_then (tr_div (Fin aPlt_au) (Fin aTest_au)) (\<lambda>r1.
     tr_then (tr_div (Fin aTest_au) (Fin aPlt_au)) (\<lambda>r2.
     ([], Inr (py_min r1 r2))))"

definition GetSecularTimescale_yr_traced ::
  "quadrature \<Rightarrow> real \<Rightarrow> real \<Rightarrow> real \<Rightarrow> real \<Rightarrow> float_val traced" where
  "GetSecularTimescale_yr_traced quad mStar_mSun mPlt_mJup aPlt_au aTest_au =
     (if mPlt_mJup = 0 then ([], Inr PInf)
      else
        let mPlt_mSun = f_mul (Fin mPlt_mJup) (Fin mJup_mSun) in
        tr_then (tr_div mPlt_mSun (Fin mStar_mSun)) (\<lambda>mPlt_mStar.
        tr_then (alpha_ratio_traced aPlt_au aTest_au) (\<lambda>alpha.
        tr_then (GetOrbitalPeriod_yr_traced aPlt_au mStar_mSun) (\<lambda>tPlt_yr.
        tr_then (GetLaplaceCoefficient_traced quad 1 (15 / 10) alpha) (\<lambda>b1_32.
        if aPlt_au \<le> aTest_au then
          tr_then (tr_div (f_mul (Fin 4) tPlt_yr) mPlt_mStar) (\<lambda>x.
          tr_then (tr_pow alpha (- (25 / 10))) (\<lambda>p.
          tr_div (f_mul x p) b1_32))
        else
          tr_then (tr_div (f_mul (Fin 4) tPlt_yr) mPlt_mStar) (\<lambda>x.
          tr_then (tr_pow alpha (- (5 / 10))) (\<lambda>p.
          tr_div (f_mul x p) b1_32)))))))"

definition GetDiffusionTimescale_yr_traced ::
  "real \<Rightarrow> real \<Rightarrow> real \<Rightarrow> real \<Rightarrow> float_val traced" where
  "GetDiffusionTimescale_yr_traced mStar_mSun mPlt_mJup aPlt_au aTest_au =
     (if mPlt_mJup = 0 then ([], Inr PInf)
      else
        let mPlt_mSun = f_mul (Fin mPlt_mJup) (Fin mJup_mSun) in
        tr_then (alpha_ratio_traced aPlt_au aTest_au) (\<lambda>alpha.
        tr_then (GetOrbitalPeriod_yr_traced aPlt_au mStar_mSun) (\<lambda>tPlt_yr.
        tr_then (tr_pow alpha (5 / 10)) (\<lambda>p.
        tr_then (tr_div mPlt_mSun (Fin mStar_mSun)) (\<lambda>ratio.
        tr_then (tr_pow ratio (- 2)) (\<lambda>r.
        ([], Inr (f_mul (f_mul (f_mul (Fin (1 / 100)) tPlt_yr) p) r))))))))"

subsection \<open>Formatting\<close>

text \<open>
  Python's conversion \<^verbatim>\<open>%.<p>e\<close> of a float: an optional minus sign, one digit, a point
  and \<open>p\<close> digits (no point where \<open>p\<close> is zero), the letter \<^verbatim>\<open>e\<close>, the sign of the
  exponent and at least two digits of exponent. The mantissa is rounded to nearest, a
  tie to the even digit. An infinity and a NaN are written as words.
\<close>

definition digit_char :: "nat \<Rightarrow> char" where
  "digit_char n = ''0123456789'' ! (n mod 10)"

definition is_digit :: "char \<Rightarrow> bool" where
  "is_digit c \<longleftrightarrow> c \<in> set ''0123456789''"

text \<open>The last \<open>k\<close> decimal digits of \<open>n\<close>.\<close>

fun fixed_digits :: "nat \<Rightarrow> nat \<Rightarrow> string" where
  "fixed_digits 0 n = []"
| "fixed_digits (Suc k) n = fixed_digits k (n div 10) @ [digit_char n]"

text \<open>The decimal digits of \<open>n\<close>.\<close>

fun nat_digits :: "nat \<Rightarrow> string" where
  "nat_digits n = (if n < 10 then [digit_char n] else nat_digits (n div 10) @ [digit_char n])"

definition round_half_even :: "real \<Rightarrow> int" where
  "round_half_even r =
     (if r - of_int \<lfloor>r\<rfloor> < 1 / 2 then \<lfloor>r\<rfloor>
      else if 1 / 2 < r - of_int \<lfloor>r\<rfloor> then \<lfloor>r\<rfloor> + 1
      else if even \<lfloor>r\<rfloor> then \<lfloor>r\<rfloor> else \<lfloor>r\<rfloor> + 1)"

text \<open>
  The mantissa of a positive \<open>x\<close> as a number of \<open>p + 1\<close> digits, with the decimal
  exponent; a mantissa that rounds up to \<open>10 ^ (p + 1)\<close> moves to the next exponent.
\<close>

definition mantissa_exponent :: "nat \<Rightarrow> real \<Rightarrow> int \<times> int" where
  "mantissa_exponent p x =
     (let e = \<lfloor>log 10 x\<rfloor>;
          m = round_half_even (x / 10 powi e * 10 ^ p)
      in if m = 10 ^ (Suc p) then (10 ^ p, e + 1) else (m, e))"

definition format_e :: "nat \<Rightarrow> float_val \<Rightarrow> string" where
  "format_e p v =
     (case v of
        PInf \<Rightarrow> ''inf''
      | NInf \<Rightarrow> ''-inf''
      | NaN \<Rightarrow> ''nan''
      | Fin x \<Rightarrow>
          (let (m, e) = (if x = 0 then (0, 0) else mantissa_exponent p \<bar>x\<bar>);
               ds = fixed_digits (Suc p) (nat m)
           in (if x < 0 then ''-'' else [])
              @ take 1 ds @ (if p = 0 then [] else ''.'') @ drop 1 ds
              @ ''e'' @ (if e < 0 then ''-'' else ''+'')
              @ (if \<bar>e\<bar> < 10 then ''0'' else []) @ nat_digits (nat \<bar>e\<bar>)))"

text \<open>
  A text in scientific notation with \<open>p\<close> decimal digits of mantissa: after an optional
  minus sign, a digit, a point, \<open>p\<close> digits, \<^verbatim>\<open>e\<close>, a sign and two or more digits.
\<close>

fun strip_sign :: "string \<Rightarrow> string" where
  "strip_sign [] = []"
| "strip_sign (c # cs) = (if c = CHR ''-'' then cs else c # cs)"

definition is_scientific :: "nat \<Rightarrow> string \<Rightarrow> bool" where
  "is_scientific p s =
     (case strip_sign s of
        d # dot # rest \<Rightarrow>
          is_digit d \<and> dot = CHR ''.''
          \<and> p + 4 \<le> length rest
          \<and> list_all is_digit (take p rest)
          \<and> rest ! p = CHR ''e''
          \<and> (rest ! (p + 1) = CHR ''+'' \<or> rest ! (p + 1) = CHR ''-'')
          \<and> list_all is_digit (drop (p + 2) rest)
      | _ \<Rightarrow> False)"

subsection \<open>Program\<close>

text \<open>The user inputs: the module-level values that the program passes to the functions.\<close>

definition mStar_mSun :: real where
  "mStar_mSun = 1"

definition mPlt_mJup :: real where
  "mPlt_mJup = 1"

definition aPlt_au :: real where
  "aPlt_au = 52 / 10"

definition aTest_au :: real where
  "aTest_au = 6"

text \<open>
  The program computes the secular time, prints it, computes the diffusion time and
  prints it. Its outcome is the list of lines printed and the exception that ended it,
  if any. The operator \<^verbatim>\<open>%\<close> copies the literal text of its template and puts the
  conversion of the value in the place of \<^verbatim>\<open>%.2e\<close>.
\<close>

definition Program :: "quadrature \<Rightarrow> string list \<times> py_error option" where
  "Program quad =
     (case GetSecularTimescale_yr quad mStar_mSun mPlt_mJup aPlt_au aTest_au of
        Inl e \<Rightarrow> ([], Some e)
      | Inr secularTime_yr \<Rightarrow>
          let out = [''Secular time: '' @ format_e 2 secularTime_yr @ '' yr''] in
          (case GetDiffusionTimescale_yr mStar_mSun mPlt_mJup aPlt_au aTest_au of
             Inl e \<Rightarrow> (out, Some e)
           | Inr diffusionTime_yr \<Rightarrow>
               (out @ [''Diffusion time: '' @ format_e 2 diffusionTime_yr @ '' yr''], None)))"

subsection \<open>An instance of the quadrature\<close>

text \<open>
  The theorems below hold for every quadrature routine. Where one of them is applied to
  concrete inputs, the routine is the one-point rule: the length of the interval times
  the value of the integrand at the lower limit.
\<close>

definition left_rectangle :: quadrature where
  "left_rectangle f a b = then_do (f a) (\<lambda>v. Inr (f_mul (Fin (b - a)) v))"

subsection \<open>Range conditions\<close>

text \<open>
  The intermediate results of \<^verbatim>\<open>GetOrbitalPeriod_yr\<close> that depend on its arguments:
  the cube of the semimajor axis, the product with the stellar mass and their quotient.
  Where they are normal doubles, no operation of the function overflows or underflows.
\<close>

definition period_in_range :: "real \<Rightarrow> real \<Rightarrow> bool" where
  "period_in_range a mStar \<longleftrightarrow>
     in_normal_range (a ^ 3) \<and> in_normal_range (4 * pi ^ 2 * mStar)
     \<and> in_normal_range (4 * pi ^ 2 * mStar / a ^ 3)"

text \<open>The period that \<^verbatim>\<open>GetOrbitalPeriod_yr\<close> returns where its intermediate results are in range.\<close>

definition kepler_period :: "real \<Rightarrow> real \<Rightarrow> real" where
  "kepler_period a mStar = 2 * pi / sqrt \<bar>4 * pi ^ 2 * mStar / a ^ 3\<bar>"

text \<open>
  The intermediate results of \<^verbatim>\<open>GetSecularTimescale_yr\<close>, for the estimate \<open>q\<close> that the
  quadrature returns: the planet mass in Solar masses, the mass ratio, the two quotients
  of the axes, the results of the orbital period, the Laplace coefficient, the quotient
  \<^verbatim>\<open>4.*tPlt_yr / mPlt_mStar\<close>, the power of \<open>alpha\<close>, their product and the final quotient.
\<close>

definition secular_in_range :: "real \<Rightarrow> real \<Rightarrow> real \<Rightarrow> real \<Rightarrow> real \<Rightarrow> bool" where
  "secular_in_range q mStar mPlt aPlt aTest \<longleftrightarrow>
     (let ratio = mPlt * mJup_mSun / mStar;
          alpha = min (aPlt / aTest) (aTest / aPlt);
          p = alpha powr (if aPlt \<le> aTest then - (25 / 10) else - (5 / 10));
          x = 4 * kepler_period aPlt mStar / ratio;
          b = 1 / pi * q
      in in_normal_range (mPlt * mJup_mSun) \<and> in_normal_range ratio
         \<and> in_normal_range (aPlt / aTest) \<and> in_normal_range (aTest / aPlt)
         \<and> period_in_range aPlt mStar
         \<and> in_normal_range b \<and> in_normal_range x \<and> in_normal_range p
         \<and> in_normal_range (x * p) \<and> in_normal_range (x * p / b))"

text \<open>
  The intermediate results of \<^verbatim>\<open>GetDiffusionTimescale_yr\<close>: the planet mass in Solar
  masses, the mass ratio and its power, the two quotients of the axes, the results of
  the orbital period, the product \<^verbatim>\<open>0.01 * tPlt_yr * alpha**0.5\<close> and the final product.
\<close>

definition diffusion_in_range :: "real \<Rightarrow> real \<Rightarrow> real \<Rightarrow> real \<Rightarrow> bool" where
  "diffusion_in_range mStar mPlt aPlt aTest \<longleftrightarrow>
     (let ratio = mPlt * mJup_mSun / mStar;
          alpha = min (aPlt / aTest) (aTest / aPlt);
          t = 1 / 100 * kepler_period aPlt mStar * alpha powr (5 / 10);
          r = ratio powr (- 2)
      in in_normal_range (mPlt * mJup_mSun) \<and> in_normal_range ratio
         \<and> in_normal_range (aPlt / aTest) \<and> in_normal_range (aTest / aPlt)
         \<and> period_in_range aPlt mStar
         \<and> in_normal_range t \<and> in_normal_range r \<and> in_normal_range (t * r))"

section \<open>Properties\<close>

subsection \<open>The range of a double\<close>

lemma thresholds:
  "underflow_threshold < min_normal" "max_float < overflow_threshold" "0 < min_normal"
  "0 < overflow_threshold" "0 < underflow_threshold"
  by (simp_all add: underflow_threshold_def min_normal_def max_float_def overflow_threshold_def)

lemma fl_normal: "in_normal_range r \<Longrightarrow> fl r = Fin r"
  using thresholds unfolding in_normal_range_def fl_def by (auto simp: abs_if split: if_splits)

lemma fl_zero [simp]: "fl 0 = Fin 0"
  using thresholds by (simp add: fl_def)

lemma in_normal_rangeI:
  assumes "1 / 2 ^ 1000 \<le> \<bar>x\<bar>" and "\<bar>x\<bar> \<le> 2 ^ 1000"
  shows "in_normal_range x"
proof -
  have "min_normal \<le> 1 / 2 ^ 1000" "(2::real) ^ 1000 \<le> max_float"
    by (simp_all add: min_normal_def max_float_def)
  with assms show ?thesis unfolding in_normal_range_def by linarith
qed


lemma range_facts:
  "min_normal = ((1::real) / 2 ^ 511) ^ 2"
  "max_float \<le> ((2::real) ^ 512) ^ 2"
  "min_normal \<le> 1 / 4"
  "64 \<le> max_float"
  "min_normal \<le> 4 / 2 ^ 512"
  "8 / (1 / 2 ^ 511) \<le> max_float"
  by (simp_all add: min_normal_def max_float_def power_divide)

lemma in_normal_range_between:
  assumes "min_normal \<le> c" and "d \<le> max_float" and "c \<le> \<bar>x\<bar>" and "\<bar>x\<bar> \<le> d"
  shows "in_normal_range x"
  using assms unfolding in_normal_range_def by linarith

lemma in_normal_range_small:
  assumes "1 / 4 \<le> \<bar>x\<bar>" and "\<bar>x\<bar> \<le> 64"
  shows "in_normal_range x"
  using in_normal_range_between [OF range_facts(3) range_facts(4) assms] .

lemma fl_fin: "in_normal_range r \<Longrightarrow> fl r = Fin r"
  by (rule fl_normal)

lemma not_overflow: "in_normal_range r \<Longrightarrow> \<not> overflow_threshold \<le> \<bar>r\<bar>"
  using thresholds unfolding in_normal_range_def by linarith

lemma not_overflow': "in_normal_range r \<Longrightarrow> \<not> overflow_threshold \<le> r"
  using thresholds unfolding in_normal_range_def by linarith

lemma in_normal_range_nonzero: "in_normal_range r \<Longrightarrow> r \<noteq> 0"
  using thresholds unfolding in_normal_range_def by linarith

lemma f_mul_fin: "in_normal_range (x * y) \<Longrightarrow> f_mul (Fin x) (Fin y) = Fin (x * y)"
  by (simp add: fl_normal)

lemma py_div_fin:
  "y \<noteq> 0 \<Longrightarrow> in_normal_range (x / y) \<Longrightarrow> py_div (Fin x) (Fin y) = Inr (Fin (x / y))"
  by (simp add: py_div_def fl_normal)

lemma py_pow_pos:
  "0 < x \<Longrightarrow> y \<noteq> 0 \<Longrightarrow> in_normal_range (x powr y) \<Longrightarrow> py_pow (Fin x) y = Inr (Fin (x powr y))"
  by (simp add: py_pow_def exact_pow_def fl_normal not_overflow')

lemma py_pow_cube:
  assumes "a \<noteq> 0" and "in_normal_range (a ^ 3)"
  shows "py_pow (Fin a) 3 = Inr (Fin (a ^ 3))"
proof -
  have "exact_pow a 3 = a ^ 3"
    using assms(1) by (simp add: exact_pow_def)
  with assms show ?thesis
    by (simp add: py_pow_def fl_normal not_overflow)
qed

lemma pi_bounds: "2 \<le> pi" "pi \<le> 4"
  using pi_ge_two pi_less_4 by simp_all

lemma pi_sq_bounds: "4 \<le> pi ^ 2" "pi ^ 2 \<le> 16"
proof -
  have "2 ^ 2 \<le> pi ^ 2" using pi_bounds by (intro power_mono) simp_all
  then show "4 \<le> pi ^ 2" by simp
  have "pi ^ 2 \<le> 4 ^ 2" using pi_bounds by (intro power_mono) simp_all
  then show "pi ^ 2 \<le> 16" by simp
qed

lemma normal_pi_sq: "in_normal_range (pi ^ 2)"
  using pi_sq_bounds by (intro in_normal_range_small) simp_all

lemma normal_four_pi_sq: "in_normal_range (4 * pi ^ 2)"
  using pi_sq_bounds by (intro in_normal_range_small) simp_all

lemma normal_two_pi: "in_normal_range (2 * pi)"
  using pi_bounds by (intro in_normal_range_small) simp_all

lemma normal_inverse_pi: "in_normal_range (1 / pi)"
proof (rule in_normal_range_small)
  have "1 / 4 \<le> 1 / pi" using pi_bounds by (simp add: field_simps)
  then show "1 / 4 \<le> \<bar>1 / pi\<bar>" by simp
  have "1 / pi \<le> 1" using pi_bounds by (simp add: field_simps)
  moreover have "\<bar>1 / pi\<bar> = 1 / pi" by simp
  ultimately show "\<bar>1 / pi\<bar> \<le> 64" by linarith
qed

lemma py_pow_pi_sq: "py_pow (Fin pi) 2 = Inr (Fin (pi ^ 2))"
  using py_pow_pos [of pi 2] normal_pi_sq by simp

lemma sqrt_normal_bounds:
  assumes "in_normal_range q"
  shows "1 / 2 ^ 511 \<le> sqrt \<bar>q\<bar>" and "sqrt \<bar>q\<bar> \<le> 2 ^ 512"
proof -
  have lo: "((1::real) / 2 ^ 511) ^ 2 \<le> \<bar>q\<bar>"
    using assms unfolding in_normal_range_def range_facts(1) by (rule conjunct1)
  have "sqrt (((1::real) / 2 ^ 511) ^ 2) \<le> sqrt \<bar>q\<bar>"
    using lo by (simp only: real_sqrt_le_iff)
  then have "\<bar>(1::real) / 2 ^ 511\<bar> \<le> sqrt \<bar>q\<bar>"
    by (simp only: real_sqrt_abs)
  then show "1 / 2 ^ 511 \<le> sqrt \<bar>q\<bar>"
    by (simp only: abs_divide abs_one power_abs abs_numeral)
  have "\<bar>q\<bar> \<le> max_float"
    using assms unfolding in_normal_range_def by (rule conjunct2)
  then have hi: "\<bar>q\<bar> \<le> ((2::real) ^ 512) ^ 2"
    using range_facts(2) by (rule order_trans)
  have "sqrt \<bar>q\<bar> \<le> sqrt (((2::real) ^ 512) ^ 2)"
    using hi by (simp only: real_sqrt_le_iff)
  then have "sqrt \<bar>q\<bar> \<le> \<bar>(2::real) ^ 512\<bar>"
    by (simp only: real_sqrt_abs)
  then show "sqrt \<bar>q\<bar> \<le> 2 ^ 512"
    by (simp only: power_abs abs_numeral)
qed

lemma quotient_bounds:
  fixes x n :: real
  assumes "0 < lo" and "lo \<le> n" and "n \<le> hi" and "0 \<le> c" and "c \<le> x" and "x \<le> d"
  shows "c / hi \<le> x / n" and "x / n \<le> d / lo"
proof -
  from assms have n: "0 < n" by linarith
  from assms have x: "0 \<le> x" by linarith
  show "c / hi \<le> x / n" using assms n x by (intro frac_le) simp_all
  show "x / n \<le> d / lo" using assms n x by (intro frac_le) simp_all
qed

lemma normal_sqrt:
  assumes "in_normal_range q"
  shows "in_normal_range (sqrt \<bar>q\<bar>)"
proof -
  note b = sqrt_normal_bounds [OF assms]
  have lo: "(0::real) < 1 / 2 ^ 511" by (simp only: zero_less_divide_1_iff zero_less_power zero_less_numeral)
  have m1: "min_normal \<le> 1 / 2 ^ 511" "(2::real) ^ 512 \<le> max_float"
    by (simp_all add: min_normal_def max_float_def)
  have "0 < sqrt \<bar>q\<bar>" using lo b(1) by (rule less_le_trans)
  then have "\<bar>sqrt \<bar>q\<bar>\<bar> = sqrt \<bar>q\<bar>" by (simp only: abs_of_pos)
  with b show ?thesis
    using in_normal_range_between [OF m1, of "sqrt \<bar>q\<bar>"] by (simp only:)
qed

lemma normal_period:
  assumes "in_normal_range q"
  shows "in_normal_range (2 * pi / sqrt \<bar>q\<bar>)" and "0 < 2 * pi / sqrt \<bar>q\<bar>"
proof -
  note b = sqrt_normal_bounds [OF assms]
  have lo: "(0::real) < 1 / 2 ^ 511" by (simp only: zero_less_divide_1_iff zero_less_power zero_less_numeral)
  have p: "4 \<le> 2 * pi" "2 * pi \<le> 8" using pi_bounds by simp_all
  have q: "4 / 2 ^ 512 \<le> 2 * pi / sqrt \<bar>q\<bar>" "2 * pi / sqrt \<bar>q\<bar> \<le> 8 / (1 / 2 ^ 511)"
    using quotient_bounds [OF lo b(1) b(2) _ p] by simp_all
  have "(0::real) < 4 / 2 ^ 512" by (simp only: zero_less_divide_iff zero_less_power zero_less_numeral simp_thms)
  then show pos: "0 < 2 * pi / sqrt \<bar>q\<bar>" using q(1) by (rule less_le_trans)
  then have "\<bar>2 * pi / sqrt \<bar>q\<bar>\<bar> = 2 * pi / sqrt \<bar>q\<bar>" by (simp only: abs_of_pos)
  with q show "in_normal_range (2 * pi / sqrt \<bar>q\<bar>)"
    using in_normal_range_between [OF range_facts(5) range_facts(6), of "2 * pi / sqrt \<bar>q\<bar>"]
    by (simp only:)
qed

lemma GetOrbitalPeriod_yr_in_range:
  assumes "period_in_range a mStar"
  shows "GetOrbitalPeriod_yr a mStar = Inr (Fin (2 * pi / sqrt \<bar>4 * pi ^ 2 * mStar / a ^ 3\<bar>))"
proof -
  let ?q = "4 * pi ^ 2 * mStar / a ^ 3"
  from assms have r: "in_normal_range (a ^ 3)" "in_normal_range (4 * pi ^ 2 * mStar)"
    "in_normal_range ?q"
    by (simp_all add: period_in_range_def)
  from r(1) have a: "a \<noteq> 0" using in_normal_range_nonzero by fastforce
  have a3: "a ^ 3 \<noteq> 0" using a by simp
  from r(3) have q: "?q \<noteq> 0" by (rule in_normal_range_nonzero)
  have n: "py_pow (Fin \<bar>?q\<bar>) (5 / 10) = Inr (Fin (sqrt \<bar>?q\<bar>))"
    using py_pow_pos [of "\<bar>?q\<bar>" "5 / 10"] q normal_sqrt [OF r(3)]
    by (simp add: powr_half_sqrt)
  have s: "sqrt \<bar>?q\<bar> \<noteq> 0" using q by simp
  have 1: "f_mul (Fin 4) (Fin (pi ^ 2)) = Fin (4 * pi ^ 2)"
    using normal_four_pi_sq by (rule f_mul_fin)
  have 2: "f_mul (Fin (4 * pi ^ 2)) (Fin mStar) = Fin (4 * pi ^ 2 * mStar)"
    using r(2) by (rule f_mul_fin)
  have 3: "py_div (Fin (4 * pi ^ 2 * mStar)) (Fin (a ^ 3)) = Inr (Fin ?q)"
    using a3 r(3) by (rule py_div_fin)
  have 4: "f_mul (Fin 2) (Fin pi) = Fin (2 * pi)"
    using normal_two_pi by (rule f_mul_fin)
  have 5: "py_div (Fin (2 * pi)) (Fin (sqrt \<bar>?q\<bar>)) = Inr (Fin (2 * pi / sqrt \<bar>?q\<bar>))"
    using s normal_period(1) [OF r(3)] by (rule py_div_fin)
  show ?thesis
    unfolding GetOrbitalPeriod_yr_def py_pow_pi_sq py_pow_cube [OF a r(1)] then_do_def
    by (simp only: sum.case 1 2 3 4 5 n f_abs.simps)
qed

subsection \<open>Orbital period\<close>



























subsection \<open>The ratio of the semimajor axes\<close>

lemma range_facts_mid: "min_normal \<le> 1 / 2 ^ 100" "(2::real) ^ 100 \<le> max_float"
  by (simp_all add: min_normal_def max_float_def)

lemma in_normal_range_mid:
  assumes "1 / 2 ^ 100 \<le> \<bar>x\<bar>" and "\<bar>x\<bar> \<le> 2 ^ 100"
  shows "in_normal_range x"
  using in_normal_range_between [OF range_facts_mid assms] .

lemma py_min_fin: "py_min (Fin x) (Fin y) = Fin (min x y)"
  by (simp add: py_min_def min_def)




lemma alpha_ratio_in_range:
  assumes "in_normal_range (aPlt / aTest)" and "in_normal_range (aTest / aPlt)"
  shows "alpha_ratio aPlt aTest = Inr (Fin (min (aPlt / aTest) (aTest / aPlt)))"
proof -
  from assms(1) have "aPlt / aTest \<noteq> 0" by (rule in_normal_range_nonzero)
  then have nz: "aPlt \<noteq> 0" "aTest \<noteq> 0" by auto
  show ?thesis
    unfolding alpha_ratio_def py_div_fin [OF nz(2) assms(1)] py_div_fin [OF nz(1) assms(2)]
    by (simp add: then_do_def py_min_fin)
qed

lemma alpha_pos:
  assumes "0 < (aPlt::real)" and "0 < aTest"
  shows "0 < min (aPlt / aTest) (aTest / aPlt)"
  using assms by simp





subsection \<open>Secular and diffusion timescale\<close>

lemma period_value_bounds:
  assumes "in_normal_range q"
  shows "4 / 2 ^ 512 \<le> 2 * pi / sqrt \<bar>q\<bar>" and "2 * pi / sqrt \<bar>q\<bar> \<le> 8 / (1 / 2 ^ 511)"
proof -
  note b = sqrt_normal_bounds [OF assms]
  have lo: "(0::real) < 1 / 2 ^ 511"
    by (simp only: zero_less_divide_1_iff zero_less_power zero_less_numeral)
  have p: "4 \<le> 2 * pi" "2 * pi \<le> 8" using pi_bounds by simp_all
  show "4 / 2 ^ 512 \<le> 2 * pi / sqrt \<bar>q\<bar>" "2 * pi / sqrt \<bar>q\<bar> \<le> 8 / (1 / 2 ^ 511)"
    using quotient_bounds [OF lo b(1) b(2) _ p] by simp_all
qed

lemma range_facts_scaled:
  "min_normal \<le> 4 * (4 / 2 ^ 512)" "4 * (8 / (1 / 2 ^ 511)) \<le> max_float"
  "min_normal \<le> 1 / 100 * (4 / 2 ^ 512)" "1 / 100 * (8 / (1 / 2 ^ 511)) \<le> max_float"
  by (simp_all add: min_normal_def max_float_def)

lemma normal_scaled_period:
  assumes "in_normal_range q"
  shows "in_normal_range (4 * (2 * pi / sqrt \<bar>q\<bar>))"
    and "in_normal_range (1 / 100 * (2 * pi / sqrt \<bar>q\<bar>))"
proof -
  note b = period_value_bounds [OF assms]
  note pos = normal_period(2) [OF assms]
  have 1: "4 * (4 / 2 ^ 512) \<le> 4 * (2 * pi / sqrt \<bar>q\<bar>)"
    "4 * (2 * pi / sqrt \<bar>q\<bar>) \<le> 4 * (8 / (1 / 2 ^ 511))"
    using b by (simp_all only: mult_le_cancel_left_pos zero_less_numeral)
  have a1: "\<bar>4 * (2 * pi / sqrt \<bar>q\<bar>)\<bar> = 4 * (2 * pi / sqrt \<bar>q\<bar>)"
    using pos by (simp only: abs_mult abs_numeral abs_of_pos)
  show "in_normal_range (4 * (2 * pi / sqrt \<bar>q\<bar>))"
    using in_normal_range_between [OF range_facts_scaled(1,2), of "4 * (2 * pi / sqrt \<bar>q\<bar>)"] 1 a1
    by (simp only:)
  have c: "(0::real) < 1 / 100" by simp
  have 2: "1 / 100 * (4 / 2 ^ 512) \<le> 1 / 100 * (2 * pi / sqrt \<bar>q\<bar>)"
    "1 / 100 * (2 * pi / sqrt \<bar>q\<bar>) \<le> 1 / 100 * (8 / (1 / 2 ^ 511))"
    using b c by (simp_all only: mult_le_cancel_left_pos)
  have "0 < 1 / 100 * (2 * pi / sqrt \<bar>q\<bar>)" using c pos by (rule mult_pos_pos)
  then have a2: "\<bar>1 / 100 * (2 * pi / sqrt \<bar>q\<bar>)\<bar> = 1 / 100 * (2 * pi / sqrt \<bar>q\<bar>)"
    by (simp only: abs_of_pos)
  show "in_normal_range (1 / 100 * (2 * pi / sqrt \<bar>q\<bar>))"
    using in_normal_range_between [OF range_facts_scaled(3,4), of "1 / 100 * (2 * pi / sqrt \<bar>q\<bar>)"] 2 a2
    by (simp only:)
qed

lemma normal_min:
  assumes "in_normal_range x" and "in_normal_range y"
  shows "in_normal_range (min x y)"
  using assms by (simp add: min_def)

lemma GetLaplaceCoefficient_in_range:
  assumes "quad (laplaceCoefficientIntegrand j s alpha) 0 (2 * pi) = Inr (Fin q)"
    and "in_normal_range (1 / pi * q)"
  shows "GetLaplaceCoefficient quad j s alpha = Inr (Fin (1 / pi * q))"
proof -
  have "py_div (Fin 1) (Fin pi) = Inr (Fin (1 / pi))"
    using normal_inverse_pi by (intro py_div_fin) simp_all
  then show ?thesis
    unfolding GetLaplaceCoefficient_def assms(1) then_do_def
    using f_mul_fin [OF assms(2)] by simp
qed

text \<open>
  C1. For a positive stellar mass, a positive planet mass and two distinct positive
  semimajor axes, where the quadrature returns a finite estimate \<open>q\<close> and the
  intermediate results are normal doubles: with \<open>alpha = min (aPlt / aTest) (aTest / aPlt)\<close>,
  \<open>T\<close> the orbital period of the planet and \<open>b = q / \<pi>\<close> the Laplace coefficient at
  \<open>(1, 1.5, alpha)\<close>, the secular timescale is \<open>4 T / (mPlt 9.55e-4 / mStar) \<cdot> alpha\<close> to
  the power \<open>-2.5\<close> over \<open>b\<close> when \<open>aPlt \<le> aTest\<close>, and the same with the power \<open>-0.5\<close>
  when \<open>aPlt > aTest\<close>.
\<close>

theorem secular_timescale_formula:
  assumes "0 < mStar" and "0 < mPlt" and "0 < aPlt" and "0 < aTest" and "aPlt \<noteq> aTest"
    and "quad (laplaceCoefficientIntegrand 1 (15 / 10) (Fin (min (aPlt / aTest) (aTest / aPlt))))
           0 (2 * pi) = Inr (Fin q)"
    and "secular_in_range q mStar mPlt aPlt aTest"
  shows "let alpha = min (aPlt / aTest) (aTest / aPlt);
             T = kepler_period aPlt mStar;
             b = 1 / pi * q
         in GetOrbitalPeriod_yr aPlt mStar = Inr (Fin T)
            \<and> GetLaplaceCoefficient quad 1 (15 / 10) (Fin alpha) = Inr (Fin b)
            \<and> GetSecularTimescale_yr quad mStar mPlt aPlt aTest =
                Inr (Fin (4 * T / (mPlt * (955 / 1000000) / mStar)
                          * alpha powr (if aPlt \<le> aTest then - (25 / 10) else - (5 / 10))
                          / b))"
proof -
  let ?alpha = "min (aPlt / aTest) (aTest / aPlt)"
  let ?T = "kepler_period aPlt mStar"
  let ?ratio = "mPlt * mJup_mSun / mStar"
  let ?e = "if aPlt \<le> aTest then - (25 / 10) else - (5 / 10) :: real"
  let ?b = "1 / pi * q"
  let ?x = "4 * ?T / ?ratio"
  have r: "in_normal_range (mPlt * mJup_mSun)" "in_normal_range ?ratio"
    "in_normal_range (aPlt / aTest)" "in_normal_range (aTest / aPlt)"
    "period_in_range aPlt mStar"
    "in_normal_range ?b" "in_normal_range ?x" "in_normal_range (?alpha powr ?e)"
    "in_normal_range (?x * ?alpha powr ?e)" "in_normal_range (?x * ?alpha powr ?e / ?b)"
    using assms(7) unfolding secular_in_range_def Let_def by blast+
  from r(5) have q: "in_normal_range (4 * pi ^ 2 * mStar / aPlt ^ 3)"
    by (simp add: period_in_range_def)
  have T: "GetOrbitalPeriod_yr aPlt mStar = Inr (Fin ?T)"
    unfolding kepler_period_def using r(5) by (rule GetOrbitalPeriod_yr_in_range)
  have A: "alpha_ratio aPlt aTest = Inr (Fin ?alpha)"
    using r(3,4) by (rule alpha_ratio_in_range)
  have apos: "0 < ?alpha" using assms(3,4) by (rule alpha_pos)
  have M: "f_mul (Fin mPlt) (Fin mJup_mSun) = Fin (mPlt * mJup_mSun)"
    using r(1) by (rule f_mul_fin)
  have m: "mStar \<noteq> 0" using assms(1) by simp
  have R: "py_div (Fin (mPlt * mJup_mSun)) (Fin mStar) = Inr (Fin ?ratio)"
    using m r(2) by (rule py_div_fin)
  have rnz: "?ratio \<noteq> 0" using r(2) by (rule in_normal_range_nonzero)
  have B: "GetLaplaceCoefficient quad 1 (15 / 10) (Fin ?alpha) = Inr (Fin ?b)"
    using assms(6) r(6) by (rule GetLaplaceCoefficient_in_range)
  have bnz: "?b \<noteq> 0" using r(6) by (rule in_normal_range_nonzero)
  have T4: "f_mul (Fin 4) (Fin ?T) = Fin (4 * ?T)"
    unfolding kepler_period_def using normal_scaled_period(1) [OF q] by (rule f_mul_fin)
  have X: "py_div (Fin (4 * ?T)) (Fin ?ratio) = Inr (Fin ?x)"
    using rnz r(7) by (rule py_div_fin)
  have tail: "then_do (py_div (f_mul (Fin 4) (Fin ?T)) (Fin ?ratio)) (\<lambda>x.
              then_do (py_pow (Fin ?alpha) e) (\<lambda>p. py_div (f_mul x p) (Fin ?b)))
                = Inr (Fin (?x * ?alpha powr e / ?b))"
    if e: "e \<noteq> 0" "in_normal_range (?alpha powr e)" "in_normal_range (?x * ?alpha powr e)"
      "in_normal_range (?x * ?alpha powr e / ?b)" for e
  proof -
    have P: "py_pow (Fin ?alpha) e = Inr (Fin (?alpha powr e))"
      using apos e(1,2) by (rule py_pow_pos)
    have XP: "f_mul (Fin ?x) (Fin (?alpha powr e)) = Fin (?x * ?alpha powr e)"
      using e(3) by (rule f_mul_fin)
    have F: "py_div (Fin (?x * ?alpha powr e)) (Fin ?b) = Inr (Fin (?x * ?alpha powr e / ?b))"
      using bnz e(4) by (rule py_div_fin)
    show ?thesis
      unfolding then_do_def by (simp only: sum.case T4 X P XP F)
  qed
  have head: "GetSecularTimescale_yr quad mStar mPlt aPlt aTest =
      (if aPlt \<le> aTest then
          then_do (py_div (f_mul (Fin 4) (Fin ?T)) (Fin ?ratio)) (\<lambda>x.
          then_do (py_pow (Fin ?alpha) (- (25 / 10))) (\<lambda>p. py_div (f_mul x p) (Fin ?b)))
       else
          then_do (py_div (f_mul (Fin 4) (Fin ?T)) (Fin ?ratio)) (\<lambda>x.
          then_do (py_pow (Fin ?alpha) (- (5 / 10))) (\<lambda>p. py_div (f_mul x p) (Fin ?b))))"
  proof -
    have nz: "mPlt \<noteq> 0" using assms(2) by simp
    have s: "then_do (Inr v) f = f v" for v :: float_val and f :: "float_val \<Rightarrow> py_error + float_val"
      by (simp add: then_do_def)
    show ?thesis
      unfolding GetSecularTimescale_yr_def Let_def
      by (simp only: nz if_False M R A T B s)
  qed
  have "GetSecularTimescale_yr quad mStar mPlt aPlt aTest = Inr (Fin (?x * ?alpha powr ?e / ?b))"
  proof (cases "aPlt \<le> aTest")
    case True
    have "(- (25 / 10) :: real) \<noteq> 0" by simp
    from tail [OF this r(8-10) [unfolded if_P [OF True]]] show ?thesis
      unfolding head if_P [OF True] .
  next
    case False
    have "(- (5 / 10) :: real) \<noteq> 0" by simp
    from tail [OF this r(8-10) [unfolded if_not_P [OF False]]] show ?thesis
      unfolding head if_not_P [OF False] .
  qed
  with T B show ?thesis
    unfolding mJup_mSun_def Let_def by simp
qed

text \<open>
  C3. For a positive stellar mass, a positive planet mass and two positive semimajor
  axes whose intermediate results are normal doubles, the diffusion timescale is
  \<open>0.01 T \<cdot> alpha\<close> to the power \<open>0.5\<close> times \<open>(mPlt 9.55e-4 / mStar)\<close> to the power \<open>-2\<close>,
  with \<open>T\<close> the orbital period of the planet and
  \<open>alpha = min (aPlt / aTest) (aTest / aPlt)\<close>: one expression, whichever axis is the
  larger.
\<close>

theorem diffusion_timescale_formula:
  assumes "0 < mStar" and "0 < mPlt" and "0 < aPlt" and "0 < aTest"
    and "diffusion_in_range mStar mPlt aPlt aTest"
  shows "GetOrbitalPeriod_yr aPlt mStar = Inr (Fin (kepler_period aPlt mStar))
       \<and> GetDiffusionTimescale_yr mStar mPlt aPlt aTest =
           Inr (Fin (1 / 100 * kepler_period aPlt mStar
                     * (min (aPlt / aTest) (aTest / aPlt)) powr (5 / 10)
                     * (mPlt * (955 / 1000000) / mStar) powr (- 2)))"
proof -
  let ?alpha = "min (aPlt / aTest) (aTest / aPlt)"
  let ?T = "kepler_period aPlt mStar"
  let ?ratio = "mPlt * mJup_mSun / mStar"
  from assms(5) have r: "in_normal_range (mPlt * mJup_mSun)" "in_normal_range ?ratio"
    "in_normal_range (aPlt / aTest)" "in_normal_range (aTest / aPlt)"
    "period_in_range aPlt mStar"
    "in_normal_range (1 / 100 * ?T * ?alpha powr (5 / 10))"
    "in_normal_range (?ratio powr (- 2))"
    "in_normal_range (1 / 100 * ?T * ?alpha powr (5 / 10) * ?ratio powr (- 2))"
    by (simp_all add: diffusion_in_range_def Let_def)
  from r(5) have q: "in_normal_range (4 * pi ^ 2 * mStar / aPlt ^ 3)"
    by (simp add: period_in_range_def)
  have T: "GetOrbitalPeriod_yr aPlt mStar = Inr (Fin ?T)"
    unfolding kepler_period_def using r(5) by (rule GetOrbitalPeriod_yr_in_range)
  have A: "alpha_ratio aPlt aTest = Inr (Fin ?alpha)"
    using r(3,4) by (rule alpha_ratio_in_range)
  have apos: "0 < ?alpha" using assms(3,4) by (rule alpha_pos)
  have "in_normal_range (sqrt \<bar>?alpha\<bar>)"
    using normal_min [OF r(3,4)] by (rule normal_sqrt)
  then have "in_normal_range (?alpha powr (5 / 10))"
    using apos by (simp add: powr_half_sqrt)
  then have P: "py_pow (Fin ?alpha) (5 / 10) = Inr (Fin (?alpha powr (5 / 10)))"
    using apos by (intro py_pow_pos) simp_all
  have M: "f_mul (Fin mPlt) (Fin mJup_mSun) = Fin (mPlt * mJup_mSun)"
    using r(1) by (rule f_mul_fin)
  have m: "mStar \<noteq> 0" using assms(1) by simp
  have R: "py_div (Fin (mPlt * mJup_mSun)) (Fin mStar) = Inr (Fin ?ratio)"
    using m r(2) by (rule py_div_fin)
  have rpos: "0 < ?ratio" using assms(1,2) by (simp add: mJup_mSun_def)
  have R2: "py_pow (Fin ?ratio) (- 2) = Inr (Fin (?ratio powr (- 2)))"
    using rpos r(7) by (intro py_pow_pos) simp_all
  have T1: "f_mul (Fin (1 / 100)) (Fin ?T) = Fin (1 / 100 * ?T)"
    unfolding kepler_period_def using normal_scaled_period(2) [OF q] by (rule f_mul_fin)
  have T2: "f_mul (Fin (1 / 100 * ?T)) (Fin (?alpha powr (5 / 10)))
              = Fin (1 / 100 * ?T * ?alpha powr (5 / 10))"
    using r(6) by (rule f_mul_fin)
  have T3: "f_mul (Fin (1 / 100 * ?T * ?alpha powr (5 / 10))) (Fin (?ratio powr (- 2)))
              = Fin (1 / 100 * ?T * ?alpha powr (5 / 10) * ?ratio powr (- 2))"
    using r(8) by (rule f_mul_fin)
  have "GetDiffusionTimescale_yr mStar mPlt aPlt aTest =
          Inr (Fin (1 / 100 * ?T * ?alpha powr (5 / 10) * ?ratio powr (- 2)))"
    using assms(2)
    unfolding GetDiffusionTimescale_yr_def Let_def M A T then_do_def
    by (simp only: sum.case M A T P R R2 T1 T2 T3) simp
  with T show ?thesis
    unfolding mJup_mSun_def by simp
qed


subsection \<open>A planet of zero mass\<close>

text \<open>
  C2. With a planet mass of zero, the secular and the diffusion timescale are both the
  infinite value, returned and not raised, whatever the stellar mass and the semimajor
  axes are.
\<close>

theorem zero_mass_infinite:
  "GetSecularTimescale_yr quad mStar 0 aPlt aTest = Inr PInf
   \<and> GetDiffusionTimescale_yr mStar 0 aPlt aTest = Inr PInf"
  by (simp add: GetSecularTimescale_yr_def GetDiffusionTimescale_yr_def)

lemma snd_tr_then: "snd (tr_then m f) = then_do (snd m) (\<lambda>v. snd (f v))"
  by (simp add: tr_then_def then_do_def split: sum.splits)

lemma snd_GetOrbitalPeriod_yr_traced:
  "snd (GetOrbitalPeriod_yr_traced a mStar) = GetOrbitalPeriod_yr a mStar"
  by (simp add: GetOrbitalPeriod_yr_traced_def GetOrbitalPeriod_yr_def snd_tr_then
      tr_div_def tr_pow_def then_do_def)

lemma snd_alpha_ratio_traced:
  "snd (alpha_ratio_traced aPlt aTest) = alpha_ratio aPlt aTest"
  by (simp add: alpha_ratio_traced_def alpha_ratio_def snd_tr_then tr_div_def)

lemma snd_GetLaplaceCoefficient_traced:
  "snd (GetLaplaceCoefficient_traced quad j s alpha) = GetLaplaceCoefficient quad j s alpha"
  by (simp add: GetLaplaceCoefficient_traced_def GetLaplaceCoefficient_def snd_tr_then
      tr_div_def)

text \<open>The functions with a log return what the functions without it return.\<close>

lemma outcome_traced:
  "snd (GetSecularTimescale_yr_traced quad mStar mPlt aPlt aTest)
     = GetSecularTimescale_yr quad mStar mPlt aPlt aTest"
  "snd (GetDiffusionTimescale_yr_traced mStar mPlt aPlt aTest)
     = GetDiffusionTimescale_yr mStar mPlt aPlt aTest"
  by (simp_all add: GetSecularTimescale_yr_traced_def GetSecularTimescale_yr_def
      GetDiffusionTimescale_yr_traced_def GetDiffusionTimescale_yr_def
      snd_tr_then snd_alpha_ratio_traced snd_GetOrbitalPeriod_yr_traced
      snd_GetLaplaceCoefficient_traced tr_div_def tr_pow_def Let_def
      if_distrib [of snd] cong: if_cong)

text \<open>With a planet of nonzero mass, a planet at the origin makes both functions raise.\<close>

lemma nonzero_mass_zero_axis_raises:
  assumes "mPlt \<noteq> 0"
  shows "GetSecularTimescale_yr quad mStar mPlt 0 aTest = Inl ZeroDivisionError"
    and "GetDiffusionTimescale_yr mStar mPlt 0 aTest = Inl ZeroDivisionError"
  using assms
  by (simp_all add: GetSecularTimescale_yr_def GetDiffusionTimescale_yr_def alpha_ratio_def
      then_do_def py_div_def Let_def)

text \<open>
  C9. The test for a zero planet mass comes before every other operation: with a planet
  mass of zero both functions return the infinite value with an empty log, that is
  without a division, a power, an evaluation of the orbital period or a call of the
  quadrature, for every stellar mass and all semimajor axes, equal or zero ones
  included.
\<close>

theorem zero_mass_checked_first:
  "GetSecularTimescale_yr_traced quad mStar 0 aPlt aTest = ([], Inr PInf)
   \<and> GetDiffusionTimescale_yr_traced mStar 0 aPlt aTest = ([], Inr PInf)"
  by (simp add: GetSecularTimescale_yr_traced_def GetDiffusionTimescale_yr_traced_def)


end
